theory Spec2Isabelle
  imports Complex_Main
begin

section \<open>Two-dimensional arrays\<close>

text \<open>
  The network of \<^verbatim>\<open>neural_networks.py\<close> is written with numpy arrays of rank two.
  An array is its shape and its rows. Floats are modelled by the real numbers: rounding,
  overflow and nan are outside the model (the one place where the program leaves the
  real numbers, a division by a batch size of zero, is an outcome of its own below).
\<close>

datatype error = ValueError string | AttributeError string

record ndarray =
  shape0 :: nat
  shape1 :: nat
  elems :: "real list list"

definition wf :: "ndarray \<Rightarrow> bool" where
  "wf A = (length (elems A) = shape0 A \<and> list_all (\<lambda>r. length r = shape1 A) (elems A))"

definition entry :: "ndarray \<Rightarrow> nat \<Rightarrow> nat \<Rightarrow> real" where
  "entry A i j = elems A ! i ! j"

definition mk :: "nat \<Rightarrow> nat \<Rightarrow> (nat \<Rightarrow> nat \<Rightarrow> real) \<Rightarrow> ndarray" where
  "mk r c f = \<lparr>shape0 = r, shape1 = c, elems = map (\<lambda>i. map (f i) [0..<c]) [0..<r]\<rparr>"

text \<open>\<^verbatim>\<open>np.zeros((r, c))\<close>.\<close>

definition np_zeros :: "nat \<Rightarrow> nat \<Rightarrow> ndarray" where
  "np_zeros r c = mk r c (\<lambda>i j. 0)"

text \<open>
  numpy's broadcasting of one axis: two lengths are compatible when they are equal or one
  of them is 1; the axis of length 1 is stretched, its only element read at every index.
\<close>

definition broadcast_dim :: "nat \<Rightarrow> nat \<Rightarrow> nat option" where
  "broadcast_dim a b =
     (if a = b then Some a else if a = 1 then Some b else if b = 1 then Some a else None)"

definition bidx :: "nat \<Rightarrow> nat \<Rightarrow> nat" where
  "bidx d i = (if d = 1 then 0 else i)"

definition broadcast2 :: "(real \<Rightarrow> real \<Rightarrow> real) \<Rightarrow> ndarray \<Rightarrow> ndarray \<Rightarrow> error + ndarray" where
  "broadcast2 f A B =
     (case broadcast_dim (shape0 A) (shape0 B) of
        None \<Rightarrow> Inl (ValueError ''operands could not be broadcast together'')
      | Some r \<Rightarrow>
     (case broadcast_dim (shape1 A) (shape1 B) of
        None \<Rightarrow> Inl (ValueError ''operands could not be broadcast together'')
      | Some c \<Rightarrow>
          Inr (mk r c (\<lambda>i j. f (entry A (bidx (shape0 A) i) (bidx (shape1 A) j))
                                (entry B (bidx (shape0 B) i) (bidx (shape1 B) j))))))"

definition np_add :: "ndarray \<Rightarrow> ndarray \<Rightarrow> error + ndarray" where
  "np_add = broadcast2 (+)"

definition np_subtract :: "ndarray \<Rightarrow> ndarray \<Rightarrow> error + ndarray" where
  "np_subtract = broadcast2 (-)"

definition np_multiply :: "ndarray \<Rightarrow> ndarray \<Rightarrow> error + ndarray" where
  "np_multiply = broadcast2 (*)"

text \<open>\<^verbatim>\<open>np.dot(A, B)\<close> on arrays of rank two: the matrix product, a ValueError when
  the inner lengths differ.\<close>

definition np_dot :: "ndarray \<Rightarrow> ndarray \<Rightarrow> error + ndarray" where
  "np_dot A B =
     (if shape1 A = shape0 B
      then Inr (mk (shape0 A) (shape1 B)
                  (\<lambda>i j. sum_list (map (\<lambda>k. entry A i k * entry B k j) [0..<shape1 A])))
      else Inl (ValueError ''shapes not aligned''))"

text \<open>\<^verbatim>\<open>A.T\<close>.\<close>

definition transpose_nd :: "ndarray \<Rightarrow> ndarray" where
  "transpose_nd A = mk (shape1 A) (shape0 A) (\<lambda>i j. entry A j i)"

text \<open>\<^verbatim>\<open>np.sum(A, axis=0, keepdims=True)\<close>.\<close>

definition np_sum_axis0 :: "ndarray \<Rightarrow> ndarray" where
  "np_sum_axis0 A = mk 1 (shape1 A) (\<lambda>i j. sum_list (map (\<lambda>n. entry A n j) [0..<shape0 A]))"

text \<open>A function of one float applied to an array, element by element (\<^verbatim>\<open>np.tanh(A)\<close>,
  \<^verbatim>\<open>lr * A\<close>).\<close>

definition elementwise :: "(real \<Rightarrow> real) \<Rightarrow> ndarray \<Rightarrow> ndarray" where
  "elementwise f A = mk (shape0 A) (shape1 A) (\<lambda>i j. f (entry A i j))"

text \<open>
  \<^verbatim>\<open>A / m\<close> for the integer \<^verbatim>\<open>m = X.shape[0]\<close>. numpy does not raise when \<open>m\<close> is 0:
  it warns and fills the quotient with nan or inf. That quotient is not an array of reals,
  so it is \<open>None\<close> here; the quotient of an array without elements is that array.
\<close>

definition np_divide :: "ndarray \<Rightarrow> nat \<Rightarrow> ndarray option" where
  "np_divide A m =
     (if m = 0 \<and> shape0 A * shape1 A \<noteq> 0 then None
      else Some (elementwise (\<lambda>x. x / real m) A))"

text \<open>
  The in-place \<^verbatim>\<open>A -= B\<close>: \<open>B\<close> is broadcast to the shape of \<open>A\<close>, which cannot
  change; a ValueError otherwise.
\<close>

definition isub :: "ndarray \<Rightarrow> ndarray \<Rightarrow> error + ndarray" where
  "isub A B =
     (if (shape0 B = shape0 A \<or> shape0 B = 1) \<and> (shape1 B = shape1 A \<or> shape1 B = 1)
      then Inr (mk (shape0 A) (shape1 A)
                  (\<lambda>i j. entry A i j - entry B (bidx (shape0 B) i) (bidx (shape1 B) j)))
      else Inl (ValueError ''non-broadcastable output operand''))"

section \<open>The network\<close>

text \<open>
  The attributes of an \<^verbatim>\<open>MLP\<close> object. The forward cache and the gradient dictionary do
  not exist before the first \<^verbatim>\<open>forward\<close> and \<^verbatim>\<open>backward\<close>; reading a missing attribute
  raises AttributeError. The activation and its derivative are stored as functions, as the
  constructor stores lambdas; they act on arrays element by element.
\<close>

record mlp =
  lr :: real
  activation_fn :: string
  W1 :: ndarray
  b1 :: ndarray
  W2 :: ndarray
  b2 :: ndarray
  activation :: "real \<Rightarrow> real"
  activation_prime :: "real \<Rightarrow> real"
  z1 :: "ndarray option"
  a1 :: "ndarray option"
  z2 :: "ndarray option"
  a2 :: "ndarray option"
  gradients :: "(string \<rightharpoonup> ndarray) option"

definition relu :: "real \<Rightarrow> real" where
  "relu x = max 0 x"

definition relu_prime :: "real \<Rightarrow> real" where
  "relu_prime x = (if x > 0 then 1 else 0)"

definition sigmoid :: "real \<Rightarrow> real" where
  "sigmoid x = 1 / (1 + exp (- x))"

definition sigmoid_prime :: "real \<Rightarrow> real" where
  "sigmoid_prime x = sigmoid x * (1 - sigmoid x)"

definition tanh_prime :: "real \<Rightarrow> real" where
  "tanh_prime x = 1 - tanh x ^ 2"

text \<open>
  \<^verbatim>\<open>MLP.__init__\<close> (lines 16 to 38). numpy's global generator is state that the
  constructor reads and writes: \<open>g\<close> is its state at the call, and the state after the call
  is returned with the result. The generator itself is numpy's and is a parameter:
  \<open>seed n\<close> is the state after \<^verbatim>\<open>np.random.seed(n)\<close>, and \<open>randn g r c\<close> is the array of
  standard normal draws that \<^verbatim>\<open>np.random.randn(r, c)\<close> returns in state \<open>g\<close>, with the state
  it leaves. The weights are drawn before the activation is looked at, so the generator
  has moved also when the constructor raises.
\<close>

definition MLP_init ::
  "(nat \<Rightarrow> 'g) \<Rightarrow> ('g \<Rightarrow> nat \<Rightarrow> nat \<Rightarrow> ndarray \<times> 'g) \<Rightarrow> 'g \<Rightarrow>
   nat \<Rightarrow> nat \<Rightarrow> nat \<Rightarrow> real \<Rightarrow> string \<Rightarrow> (error + mlp) \<times> 'g" where
  "MLP_init seed randn g input_dim hidden_dim output_dim rate act =
     (let g0 = seed 0;
          (w1, g1) = randn g0 input_dim hidden_dim;
          bias1 = np_zeros 1 hidden_dim;
          (w2, g2) = randn g1 hidden_dim output_dim;
          bias2 = np_zeros 1 output_dim;
          self = \<lambda>phi phi'.
            \<lparr>lr = rate, activation_fn = act, W1 = w1, b1 = bias1, W2 = w2, b2 = bias2,
             activation = phi, activation_prime = phi',
             z1 = None, a1 = None, z2 = None, a2 = None, gradients = None\<rparr>
      in if act = ''tanh'' then (Inr (self tanh tanh_prime), g2)
         else if act = ''relu'' then (Inr (self relu relu_prime), g2)
         else if act = ''sigmoid'' then (Inr (self sigmoid sigmoid_prime), g2)
         else (Inl (ValueError ''Activation function not supported''), g2))"

text \<open>
  \<^verbatim>\<open>MLP.forward\<close> (lines 40 to 46). Each assignment to an attribute is a state update,
  so a call that raises half way returns the state with the assignments made so far.
\<close>

definition forward :: "mlp \<Rightarrow> ndarray \<Rightarrow> (error + ndarray) \<times> mlp" where
  "forward self X =
     (case np_dot X (W1 self) of Inl e \<Rightarrow> (Inl e, self) | Inr d1 \<Rightarrow>
     (case np_add d1 (b1 self) of Inl e \<Rightarrow> (Inl e, self) | Inr Z1 \<Rightarrow>
      let self1 = self\<lparr>z1 := Some Z1\<rparr>;
          A1 = elementwise (activation self1) Z1;
          self2 = self1\<lparr>a1 := Some A1\<rparr>
      in
     (case np_dot A1 (W2 self2) of Inl e \<Rightarrow> (Inl e, self2) | Inr d2 \<Rightarrow>
     (case np_add d2 (b2 self2) of Inl e \<Rightarrow> (Inl e, self2) | Inr Z2 \<Rightarrow>
      let self3 = self2\<lparr>z2 := Some Z2\<rparr>;
          A2 = elementwise (activation self3) Z2;
          self4 = self3\<lparr>a2 := Some A2\<rparr>
      in (Inr A2, self4)))))"

text \<open>
  \<^verbatim>\<open>MLP.backward\<close>, lines 50 to 60: the gradients, in the order dW1, db1, dW2, db2 of
  the dictionary. Nothing is assigned to the object here. A quotient is \<open>None\<close> when the
  division by \<open>m = 0\<close> left the reals; the shape errors of the later lines are raised all
  the same, since no later line reads a quotient.
\<close>

type_synonym grads = "ndarray option \<times> ndarray option \<times> ndarray option \<times> ndarray option"

definition backward_gradients :: "mlp \<Rightarrow> ndarray \<Rightarrow> ndarray \<Rightarrow> error + grads" where
  "backward_gradients self X y =
     (let m = shape0 X in
      case a2 self of None \<Rightarrow> Inl (AttributeError ''a2'') | Some A2 \<Rightarrow>
     (case np_subtract A2 y of Inl e \<Rightarrow> Inl e | Inr delta2 \<Rightarrow>
     (case a1 self of None \<Rightarrow> Inl (AttributeError ''a1'') | Some A1 \<Rightarrow>
     (case np_dot (transpose_nd A1) delta2 of Inl e \<Rightarrow> Inl e | Inr p2 \<Rightarrow>
      let dW2 = np_divide p2 m;
          db2 = np_divide (np_sum_axis0 delta2) m
      in
     (case np_dot delta2 (transpose_nd (W2 self)) of Inl e \<Rightarrow> Inl e | Inr back \<Rightarrow>
     (case z1 self of None \<Rightarrow> Inl (AttributeError ''z1'') | Some Z1 \<Rightarrow>
     (case np_multiply back (elementwise (activation_prime self) Z1) of
        Inl e \<Rightarrow> Inl e | Inr delta1 \<Rightarrow>
     (case np_dot (transpose_nd X) delta1 of Inl e \<Rightarrow> Inl e | Inr p1 \<Rightarrow>
      let dW1 = np_divide p1 m;
          db1 = np_divide (np_sum_axis0 delta1) m
      in Inr (dW1, db1, dW2, db2)))))))))"

text \<open>
  Lines 62 to 74: the four in-place updates, in the order W2, b2, W1, b1, and the gradient
  dictionary.
\<close>

definition apply_updates ::
  "mlp \<Rightarrow> ndarray \<Rightarrow> ndarray \<Rightarrow> ndarray \<Rightarrow> ndarray \<Rightarrow> (error + unit) \<times> mlp" where
  "apply_updates self dW1 db1 dW2 db2 =
     (case isub (W2 self) (elementwise (\<lambda>x. lr self * x) dW2) of
        Inl e \<Rightarrow> (Inl e, self) | Inr w2 \<Rightarrow>
      let self1 = self\<lparr>W2 := w2\<rparr> in
     (case isub (b2 self1) (elementwise (\<lambda>x. lr self1 * x) db2) of
        Inl e \<Rightarrow> (Inl e, self1) | Inr bias2 \<Rightarrow>
      let self2 = self1\<lparr>b2 := bias2\<rparr> in
     (case isub (W1 self2) (elementwise (\<lambda>x. lr self2 * x) dW1) of
        Inl e \<Rightarrow> (Inl e, self2) | Inr w1 \<Rightarrow>
      let self3 = self2\<lparr>W1 := w1\<rparr> in
     (case isub (b1 self3) (elementwise (\<lambda>x. lr self3 * x) db1) of
        Inl e \<Rightarrow> (Inl e, self3) | Inr bias1 \<Rightarrow>
      let self4 = self3\<lparr>b1 := bias1\<rparr> in
      (Inr (),
       self4\<lparr>gradients :=
         Some [''dW1'' \<mapsto> dW1, ''db1'' \<mapsto> db1, ''dW2'' \<mapsto> dW2, ''db2'' \<mapsto> db2]\<rparr>)))))"

text \<open>
  The outcomes of \<^verbatim>\<open>backward\<close>: it returns, it raises, or all gradients were computed
  without an exception but one of them is nan or inf (\<open>X\<close> has no rows). In the last case
  the program goes on to write non-finite floats into its parameters; the model stops
  there and hands back the state before the updates.
\<close>

datatype outcome = Returned | Raised error | Not_a_number

definition backward :: "mlp \<Rightarrow> ndarray \<Rightarrow> ndarray \<Rightarrow> outcome \<times> mlp" where
  "backward self X y =
     (case backward_gradients self X y of
        Inl e \<Rightarrow> (Raised e, self)
      | Inr (Some dW1, Some db1, Some dW2, Some db2) \<Rightarrow>
          (case apply_updates self dW1 db1 dW2 db2 of
             (Inl e, self') \<Rightarrow> (Raised e, self')
           | (Inr u, self') \<Rightarrow> (Returned, self'))
      | Inr other \<Rightarrow> (Not_a_number, self))"

section \<open>Shapes, and the formulas of the specification\<close>

text \<open>The shapes of the four parameters of a network with the given dimensions.\<close>

definition net_ok :: "nat \<Rightarrow> nat \<Rightarrow> nat \<Rightarrow> mlp \<Rightarrow> bool" where
  "net_ok i h o' self =
     (wf (W1 self) \<and> shape0 (W1 self) = i \<and> shape1 (W1 self) = h \<and>
      wf (b1 self) \<and> shape0 (b1 self) = 1 \<and> shape1 (b1 self) = h \<and>
      wf (W2 self) \<and> shape0 (W2 self) = h \<and> shape1 (W2 self) = o' \<and>
      wf (b2 self) \<and> shape0 (b2 self) = 1 \<and> shape1 (b2 self) = o')"

text \<open>
  The specification's formulas, written entry by entry with sums over index ranges.
  \<open>spec_affine A W b\<close> is \<open>A\<cdot>W + b\<close> with the bias row \<open>b\<close> added to every row;
  \<open>spec_apply phi Z\<close> is \<open>phi(Z)\<close>.
\<close>

definition spec_affine :: "ndarray \<Rightarrow> ndarray \<Rightarrow> ndarray \<Rightarrow> ndarray" where
  "spec_affine A W b =
     mk (shape0 A) (shape1 W) (\<lambda>n a. (\<Sum>c<shape1 A. entry A n c * entry W c a) + entry b 0 a)"

definition spec_apply :: "(real \<Rightarrow> real) \<Rightarrow> ndarray \<Rightarrow> ndarray" where
  "spec_apply phi Z = mk (shape0 Z) (shape1 Z) (\<lambda>n a. phi (entry Z n a))"

text \<open>
  The gradients of section 4.1 for a batch of \<open>N\<close> rows: \<open>\<delta>2 = A2 - y\<close>,
  \<open>dW2 = A1\<^sup>T\<cdot>\<delta>2 / N\<close>, \<open>db2\<close> the column sums of \<open>\<delta>2\<close> over \<open>N\<close>,
  \<open>\<delta>1 = (\<delta>2\<cdot>W2\<^sup>T) \<odot> phi'(Z1)\<close>, \<open>dW1 = X\<^sup>T\<cdot>\<delta>1 / N\<close>, \<open>db1\<close> the column sums of
  \<open>\<delta>1\<close> over \<open>N\<close>.
\<close>

definition spec_delta2 :: "ndarray \<Rightarrow> ndarray \<Rightarrow> nat \<Rightarrow> nat \<Rightarrow> real" where
  "spec_delta2 A2 y n j = entry A2 n j - entry y n j"

definition spec_dW2 :: "nat \<Rightarrow> ndarray \<Rightarrow> ndarray \<Rightarrow> ndarray \<Rightarrow> ndarray" where
  "spec_dW2 N A1 A2 y =
     mk (shape1 A1) (shape1 A2) (\<lambda>a j. (\<Sum>n<N. entry A1 n a * spec_delta2 A2 y n j) / real N)"

definition spec_db2 :: "nat \<Rightarrow> ndarray \<Rightarrow> ndarray \<Rightarrow> ndarray" where
  "spec_db2 N A2 y = mk 1 (shape1 A2) (\<lambda>r j. (\<Sum>n<N. spec_delta2 A2 y n j) / real N)"

definition spec_delta1 ::
  "(real \<Rightarrow> real) \<Rightarrow> ndarray \<Rightarrow> ndarray \<Rightarrow> ndarray \<Rightarrow> ndarray \<Rightarrow> nat \<Rightarrow> nat \<Rightarrow> real" where
  "spec_delta1 phi' W Z1 A2 y n a =
     (\<Sum>j<shape1 W. spec_delta2 A2 y n j * entry W a j) * phi' (entry Z1 n a)"

definition spec_dW1 ::
  "nat \<Rightarrow> (real \<Rightarrow> real) \<Rightarrow> ndarray \<Rightarrow> ndarray \<Rightarrow> ndarray \<Rightarrow> ndarray \<Rightarrow> ndarray \<Rightarrow> ndarray" where
  "spec_dW1 N phi' W X Z1 A2 y =
     mk (shape1 X) (shape0 W)
        (\<lambda>c a. (\<Sum>n<N. entry X n c * spec_delta1 phi' W Z1 A2 y n a) / real N)"

definition spec_db1 ::
  "nat \<Rightarrow> (real \<Rightarrow> real) \<Rightarrow> ndarray \<Rightarrow> ndarray \<Rightarrow> ndarray \<Rightarrow> ndarray \<Rightarrow> ndarray" where
  "spec_db1 N phi' W Z1 A2 y =
     mk 1 (shape0 W) (\<lambda>r a. (\<Sum>n<N. spec_delta1 phi' W Z1 A2 y n a) / real N)"

text \<open>The gradient-descent step on one parameter: \<open>P - rate \<cdot> G\<close>, entry by entry.\<close>

definition spec_step :: "real \<Rightarrow> ndarray \<Rightarrow> ndarray \<Rightarrow> ndarray" where
  "spec_step rate P G = mk (shape0 P) (shape1 P) (\<lambda>i j. entry P i j - rate * entry G i j)"

section \<open>Concrete inputs\<close>

text \<open>
  A relu network with two inputs, three hidden units and one output, two batches for it,
  and labels of two rows and of one row.
\<close>

definition net0 :: mlp where
  "net0 =
     \<lparr>lr = 1 / 10, activation_fn = ''relu'',
      W1 = \<lparr>shape0 = 2, shape1 = 3, elems = [[1, - 1, 2], [0, 1, 1]]\<rparr>,
      b1 = np_zeros 1 3,
      W2 = \<lparr>shape0 = 3, shape1 = 1, elems = [[1], [- 2], [1]]\<rparr>,
      b2 = np_zeros 1 1,
      activation = relu, activation_prime = relu_prime,
      z1 = None, a1 = None, z2 = None, a2 = None, gradients = None\<rparr>"

definition X_two :: ndarray where
  "X_two = \<lparr>shape0 = 2, shape1 = 2, elems = [[1, 2], [3, - 1]]\<rparr>"

definition X_one :: ndarray where
  "X_one = \<lparr>shape0 = 1, shape1 = 2, elems = [[0, 0]]\<rparr>"

definition y_two :: ndarray where
  "y_two = \<lparr>shape0 = 2, shape1 = 1, elems = [[1], [- 1]]\<rparr>"

definition y_one :: ndarray where
  "y_one = \<lparr>shape0 = 1, shape1 = 1, elems = [[- 1]]\<rparr>"

text \<open>A toy generator for concrete runs of the constructor: its state is a counter.\<close>

definition toy_seed :: "nat \<Rightarrow> nat" where
  "toy_seed n = n"

definition toy_randn :: "nat \<Rightarrow> nat \<Rightarrow> nat \<Rightarrow> ndarray \<times> nat" where
  "toy_randn g r c = (mk r c (\<lambda>i j. real (g + i * c + j)), g + r * c)"

text \<open>The network that the constructor builds with the toy generator, for relu and rate 1/10.\<close>

definition net_seeded :: mlp where
  "net_seeded =
     \<lparr>lr = 1 / 10, activation_fn = ''relu'',
      W1 = fst (toy_randn 0 2 3), b1 = np_zeros 1 3,
      W2 = fst (toy_randn 6 3 1), b2 = np_zeros 1 1,
      activation = relu, activation_prime = relu_prime,
      z1 = None, a1 = None, z2 = None, a2 = None, gradients = None\<rparr>"

section \<open>Facts about arrays\<close>

lemma shape0_mk [simp]: "shape0 (mk r c f) = r"
  by (simp add: mk_def)

lemma shape1_mk [simp]: "shape1 (mk r c f) = c"
  by (simp add: mk_def)

lemma wf_mk [simp]: "wf (mk r c f)"
  by (simp add: mk_def wf_def list_all_iff)

lemma entry_mk [simp]: "i < r \<Longrightarrow> j < c \<Longrightarrow> entry (mk r c f) i j = f i j"
  by (simp add: mk_def entry_def)

lemma mk_cong: "(\<And>i j. i < r \<Longrightarrow> j < c \<Longrightarrow> f i j = g i j) \<Longrightarrow> mk r c f = mk r c g"
  by (simp add: mk_def)

lemma sum_list_upt: "sum_list (map f [0..<n]) = (\<Sum>k<n. f k)"
  by (induction n) simp_all

lemma bidx_lt [simp]: "i < d \<Longrightarrow> bidx d i = i"
  by (auto simp: bidx_def)

lemma bidx_one [simp]: "bidx (Suc 0) i = 0"
  by (simp add: bidx_def)

lemma broadcast_dim_same [simp]: "broadcast_dim a a = Some a"
  by (simp add: broadcast_dim_def)

lemma broadcast_dim_one [simp]: "broadcast_dim a (Suc 0) = Some a"
  by (simp add: broadcast_dim_def)

lemma shape_elementwise [simp]:
  "shape0 (elementwise f A) = shape0 A" "shape1 (elementwise f A) = shape1 A"
  "wf (elementwise f A)"
  by (simp_all add: elementwise_def)

lemma entry_elementwise [simp]:
  "i < shape0 A \<Longrightarrow> j < shape1 A \<Longrightarrow> entry (elementwise f A) i j = f (entry A i j)"
  by (simp add: elementwise_def)

lemma shape_transpose [simp]:
  "shape0 (transpose_nd A) = shape1 A" "shape1 (transpose_nd A) = shape0 A"
  "wf (transpose_nd A)"
  by (simp_all add: transpose_nd_def)

lemma entry_transpose [simp]:
  "i < shape1 A \<Longrightarrow> j < shape0 A \<Longrightarrow> entry (transpose_nd A) i j = entry A j i"
  by (simp add: transpose_nd_def)

lemma shape_sum_axis0 [simp]:
  "shape0 (np_sum_axis0 A) = 1" "shape1 (np_sum_axis0 A) = shape1 A" "wf (np_sum_axis0 A)"
  by (simp_all add: np_sum_axis0_def)

lemma shape_spec [simp]:
  "shape0 (spec_affine A W b) = shape0 A" "shape1 (spec_affine A W b) = shape1 W"
  "wf (spec_affine A W b)"
  "shape0 (spec_apply f A) = shape0 A" "shape1 (spec_apply f A) = shape1 A"
  "wf (spec_apply f A)"
  by (simp_all add: spec_affine_def spec_apply_def)

lemma np_dot_aligned:
  "shape1 A = shape0 B \<Longrightarrow>
   np_dot A B = Inr (mk (shape0 A) (shape1 B) (\<lambda>i j. \<Sum>k<shape1 A. entry A i k * entry B k j))"
  by (simp add: np_dot_def sum_list_upt)

lemma np_dot_not_aligned:
  "shape1 A \<noteq> shape0 B \<Longrightarrow> np_dot A B = Inl (ValueError ''shapes not aligned'')"
  by (simp add: np_dot_def)

lemma broadcast2_same:
  "shape0 A = shape0 B \<Longrightarrow> shape1 A = shape1 B \<Longrightarrow>
   broadcast2 f A B = Inr (mk (shape0 A) (shape1 A) (\<lambda>i j. f (entry A i j) (entry B i j)))"
  by (auto simp: broadcast2_def intro!: mk_cong)

lemma broadcast2_row:
  "shape0 B = 1 \<Longrightarrow> shape1 A = shape1 B \<Longrightarrow>
   broadcast2 f A B = Inr (mk (shape0 A) (shape1 A) (\<lambda>i j. f (entry A i j) (entry B 0 j)))"
  by (auto simp: broadcast2_def intro!: mk_cong)

lemma elementwise_spec_apply: "elementwise f A = spec_apply f A"
  by (simp add: elementwise_def spec_apply_def)

lemma elementwise_mk: "elementwise g (mk r c f) = mk r c (\<lambda>i j. g (f i j))"
  by (auto simp: elementwise_def intro!: mk_cong)

lemma np_sum_axis0_mk: "np_sum_axis0 (mk r c f) = mk 1 c (\<lambda>i j. \<Sum>n<r. f n j)"
  by (auto simp: np_sum_axis0_def sum_list_upt intro!: mk_cong sum.cong)

lemma np_divide_pos: "0 < m \<Longrightarrow> np_divide A m = Some (elementwise (\<lambda>x. x / real m) A)"
  by (simp add: np_divide_def)

section \<open>The forward pass\<close>

lemma forward_affine:
  assumes "shape1 A = shape0 W" "shape0 b = 1" "shape1 b = shape1 W"
  shows "np_dot A W =
           Inr (mk (shape0 A) (shape1 W) (\<lambda>i j. \<Sum>k<shape1 A. entry A i k * entry W k j))"
    and "np_add (mk (shape0 A) (shape1 W) (\<lambda>i j. \<Sum>k<shape1 A. entry A i k * entry W k j)) b
           = Inr (spec_affine A W b)"
  using assms
  by (auto simp: np_dot_aligned np_add_def broadcast2_row spec_affine_def intro!: mk_cong)

lemma affine_step:
  assumes "shape1 A = shape0 W" "shape0 b = 1" "shape1 b = shape1 W"
  shows "(case np_dot A W of Inl e \<Rightarrow> F e | Inr d \<Rightarrow>
            (case np_add d b of Inl e \<Rightarrow> G e | Inr Z \<Rightarrow> H Z)) = H (spec_affine A W b)"
  by (simp add: forward_affine[OF assms])

lemma forward_ok:
  assumes "net_ok i h o' self" "shape1 X = i"
  shows "forward self X =
     (let Z1 = spec_affine X (W1 self) (b1 self);
          A1 = spec_apply (activation self) Z1;
          Z2 = spec_affine A1 (W2 self) (b2 self);
          A2 = spec_apply (activation self) Z2
      in (Inr A2, self\<lparr>z1 := Some Z1, a1 := Some A1, z2 := Some Z2, a2 := Some A2\<rparr>))"
proof -
  have s: "shape1 X = shape0 (W1 self)" "shape0 (b1 self) = 1"
      "shape1 (b1 self) = shape1 (W1 self)"
    and t: "shape0 (b2 self) = 1" "shape1 (b2 self) = shape1 (W2 self)"
    and u: "shape1 (W1 self) = shape0 (W2 self)"
    using assms by (simp_all add: net_ok_def)
  show ?thesis
    unfolding forward_def
    apply (subst affine_step[OF s])
    apply (simp only: Let_def)
    apply (subst affine_step)
    apply (simp_all add: t u elementwise_spec_apply)
    done
qed

text \<open>
  Claim C2. On a network whose parameters have the shapes of its dimensions and an input
  \<open>X\<close> with \<open>input_dim\<close> columns (any number of rows), \<^verbatim>\<open>forward(X)\<close> computes
  \<open>Z1 = X\<cdot>W1 + b1\<close> with the bias added to every row, \<open>A1 = phi(Z1)\<close>,
  \<open>Z2 = A1\<cdot>W2 + b2\<close> and \<open>A2 = phi(Z2)\<close> with the same activation \<open>phi\<close> at both layers,
  stores the four tensors and returns \<open>A2\<close>.
\<close>

theorem forward_computes:
  assumes "net_ok i h o' self" and "shape0 X = N" and "shape1 X = i" and "1 \<le> N"
  shows "\<exists>Z1 A1 Z2 A2.
           Z1 = spec_affine X (W1 self) (b1 self) \<and>
           A1 = spec_apply (activation self) Z1 \<and>
           Z2 = spec_affine A1 (W2 self) (b2 self) \<and>
           A2 = spec_apply (activation self) Z2 \<and>
           forward self X =
             (Inr A2, self\<lparr>z1 := Some Z1, a1 := Some A1, z2 := Some Z2, a2 := Some A2\<rparr>)"
  using forward_ok[OF assms(1,3)] by (simp add: Let_def)

theorem forward_computes_witness:
  "net_ok 2 3 1 net0 \<and> shape0 X_two = 2 \<and> shape1 X_two = 2 \<and> (1::nat) \<le> 2 \<and>
   (\<exists>Z1 A1 Z2 A2.
      Z1 = spec_affine X_two (W1 net0) (b1 net0) \<and>
      A1 = spec_apply (activation net0) Z1 \<and>
      Z2 = spec_affine A1 (W2 net0) (b2 net0) \<and>
      A2 = spec_apply (activation net0) Z2 \<and>
      forward net0 X_two =
        (Inr A2, net0\<lparr>z1 := Some Z1, a1 := Some A1, z2 := Some Z2, a2 := Some A2\<rparr>))"
proof -
  have a: "net_ok 2 3 1 net0" by code_simp
  have b: "shape0 X_two = 2" "shape1 X_two = 2" by (simp_all add: X_two_def)
  have c: "(1::nat) \<le> 2" by simp
  from forward_computes[OF a b c] a b c show ?thesis by blast
qed

text \<open>
  Claim C8. \<^verbatim>\<open>forward\<close> assigns to nothing but the four cache attributes: for every
  input, also one on which it raises, the state after the call is the state before it with
  \<open>z1\<close>, \<open>a1\<close>, \<open>z2\<close>, \<open>a2\<close> replaced, and the four parameters are unchanged.
\<close>

theorem forward_frame:
  "W1 (snd (forward self X)) = W1 self \<and> b1 (snd (forward self X)) = b1 self \<and>
   W2 (snd (forward self X)) = W2 self \<and> b2 (snd (forward self X)) = b2 self \<and>
   snd (forward self X) =
     self\<lparr>z1 := z1 (snd (forward self X)), a1 := a1 (snd (forward self X)),
          z2 := z2 (snd (forward self X)), a2 := a2 (snd (forward self X))\<rparr>"
  by (simp add: forward_def Let_def split: sum.splits)

section \<open>The backward pass\<close>

lemma backward_gradients_ok:
  assumes net: "net_ok i h o' self"
    and c: "z1 self = Some Z1" "a1 self = Some A1" "a2 self = Some A2"
    and sZ: "shape0 Z1 = N" "shape1 Z1 = h"
    and sA1: "shape0 A1 = N" "shape1 A1 = h"
    and sA2: "shape0 A2 = N" "shape1 A2 = o'"
    and sX: "shape0 X = N" "shape1 X = i"
    and sy: "shape0 y = N" "shape1 y = o'"
    and N: "0 < N"
  shows "backward_gradients self X y =
     Inr (Some (spec_dW1 N (activation_prime self) (W2 self) X Z1 A2 y),
          Some (spec_db1 N (activation_prime self) (W2 self) Z1 A2 y),
          Some (spec_dW2 N A1 A2 y),
          Some (spec_db2 N A2 y))"
proof -
  have w: "shape0 (W2 self) = h" "shape1 (W2 self) = o'"
    using net by (simp_all add: net_ok_def)
  define D2 where "D2 = mk N o' (spec_delta2 A2 y)"
  define D1 where "D1 = mk N h (spec_delta1 (activation_prime self) (W2 self) Z1 A2 y)"
  have d2: "np_subtract A2 y = Inr D2"
    unfolding np_subtract_def D2_def
    by (subst broadcast2_same) (auto simp: sA2 sy spec_delta2_def intro!: mk_cong)
  have p2: "np_dot (transpose_nd A1) D2 =
      Inr (mk h o' (\<lambda>a j. \<Sum>n<N. entry A1 n a * spec_delta2 A2 y n j))"
    by (subst np_dot_aligned) (auto simp: D2_def sA1 intro!: mk_cong sum.cong)
  have dW2: "np_divide (mk h o' (\<lambda>a j. \<Sum>n<N. entry A1 n a * spec_delta2 A2 y n j)) N
      = Some (spec_dW2 N A1 A2 y)"
    by (simp add: np_divide_pos N elementwise_mk spec_dW2_def sA1 sA2)
  have db2: "np_divide (np_sum_axis0 D2) N = Some (spec_db2 N A2 y)"
    by (simp add: np_divide_pos N D2_def np_sum_axis0_mk elementwise_mk spec_db2_def sA2)
  have bk: "np_dot D2 (transpose_nd (W2 self)) =
      Inr (mk N h (\<lambda>n a. \<Sum>j<o'. spec_delta2 A2 y n j * entry (W2 self) a j))"
    by (subst np_dot_aligned) (auto simp: D2_def w intro!: mk_cong sum.cong)
  have d1: "np_multiply (mk N h (\<lambda>n a. \<Sum>j<o'. spec_delta2 A2 y n j * entry (W2 self) a j))
              (elementwise (activation_prime self) Z1) = Inr D1"
    unfolding np_multiply_def D1_def
    by (subst broadcast2_same) (auto simp: sZ w spec_delta1_def intro!: mk_cong)
  have p1: "np_dot (transpose_nd X) D1 =
      Inr (mk i h (\<lambda>c a. \<Sum>n<N. entry X n c *
                      spec_delta1 (activation_prime self) (W2 self) Z1 A2 y n a))"
    by (subst np_dot_aligned) (auto simp: D1_def sX intro!: mk_cong sum.cong)
  have dW1: "np_divide (mk i h (\<lambda>c a. \<Sum>n<N. entry X n c *
                      spec_delta1 (activation_prime self) (W2 self) Z1 A2 y n a)) N
      = Some (spec_dW1 N (activation_prime self) (W2 self) X Z1 A2 y)"
    by (simp add: np_divide_pos N elementwise_mk spec_dW1_def sX w)
  have db1: "np_divide (np_sum_axis0 D1) N =
      Some (spec_db1 N (activation_prime self) (W2 self) Z1 A2 y)"
    by (simp add: np_divide_pos N D1_def np_sum_axis0_mk elementwise_mk spec_db1_def w)
  show ?thesis
    unfolding backward_gradients_def Let_def
    by (simp add: c d2 p2 dW2 db2 bk d1 p1 dW1 db1 sX)
qed

lemma isub_step:
  "shape0 G = shape0 P \<Longrightarrow> shape1 G = shape1 P \<Longrightarrow>
   isub P (elementwise (\<lambda>x. c * x) G) = Inr (spec_step c P G)"
  by (auto simp: isub_def spec_step_def intro!: mk_cong)

lemma shape_spec_grads [simp]:
  "shape0 (spec_dW1 N p W X Z1 A2 y) = shape1 X" "shape1 (spec_dW1 N p W X Z1 A2 y) = shape0 W"
  "shape0 (spec_db1 N p W Z1 A2 y) = 1" "shape1 (spec_db1 N p W Z1 A2 y) = shape0 W"
  "shape0 (spec_dW2 N A1 A2 y) = shape1 A1" "shape1 (spec_dW2 N A1 A2 y) = shape1 A2"
  "shape0 (spec_db2 N A2 y) = 1" "shape1 (spec_db2 N A2 y) = shape1 A2"
  by (simp_all add: spec_dW1_def spec_db1_def spec_dW2_def spec_db2_def)

lemma wf_spec_grads [simp]:
  "wf (spec_dW1 N p W X Z1 A2 y)" "wf (spec_db1 N p W Z1 A2 y)"
  "wf (spec_dW2 N A1 A2 y)" "wf (spec_db2 N A2 y)"
  by (simp_all add: spec_dW1_def spec_db1_def spec_dW2_def spec_db2_def)

lemma shape_spec_step [simp]:
  "shape0 (spec_step c P G) = shape0 P" "shape1 (spec_step c P G) = shape1 P"
  "wf (spec_step c P G)"
  by (simp_all add: spec_step_def)

lemma apply_updates_ok:
  assumes "shape0 dW1 = shape0 (W1 self)" "shape1 dW1 = shape1 (W1 self)"
    and "shape0 db1 = shape0 (b1 self)" "shape1 db1 = shape1 (b1 self)"
    and "shape0 dW2 = shape0 (W2 self)" "shape1 dW2 = shape1 (W2 self)"
    and "shape0 db2 = shape0 (b2 self)" "shape1 db2 = shape1 (b2 self)"
  shows "apply_updates self dW1 db1 dW2 db2 =
     (Inr (),
      self\<lparr>W2 := spec_step (lr self) (W2 self) dW2,
           b2 := spec_step (lr self) (b2 self) db2,
           W1 := spec_step (lr self) (W1 self) dW1,
           b1 := spec_step (lr self) (b1 self) db1,
           gradients :=
             Some [''dW1'' \<mapsto> dW1, ''db1'' \<mapsto> db1, ''dW2'' \<mapsto> dW2, ''db2'' \<mapsto> db2]\<rparr>)"
  unfolding apply_updates_def Let_def
  by (simp add: isub_step assms)

lemma backward_ok:
  assumes net: "net_ok i h o' self"
    and c: "z1 self = Some Z1" "a1 self = Some A1" "a2 self = Some A2"
    and sZ: "shape0 Z1 = N" "shape1 Z1 = h"
    and sA1: "shape0 A1 = N" "shape1 A1 = h"
    and sA2: "shape0 A2 = N" "shape1 A2 = o'"
    and sX: "shape0 X = N" "shape1 X = i"
    and sy: "shape0 y = N" "shape1 y = o'"
    and N: "0 < N"
  shows "backward self X y =
     (let dW1 = spec_dW1 N (activation_prime self) (W2 self) X Z1 A2 y;
          db1 = spec_db1 N (activation_prime self) (W2 self) Z1 A2 y;
          dW2 = spec_dW2 N A1 A2 y;
          db2 = spec_db2 N A2 y
      in (Returned,
          self\<lparr>W2 := spec_step (lr self) (W2 self) dW2,
               b2 := spec_step (lr self) (b2 self) db2,
               W1 := spec_step (lr self) (W1 self) dW1,
               b1 := spec_step (lr self) (b1 self) db1,
               gradients :=
                 Some [''dW1'' \<mapsto> dW1, ''db1'' \<mapsto> db1, ''dW2'' \<mapsto> dW2, ''db2'' \<mapsto> db2]\<rparr>))"
proof -
  have w: "shape0 (W1 self) = i" "shape1 (W1 self) = h" "shape0 (b1 self) = 1"
    "shape1 (b1 self) = h" "shape0 (W2 self) = h" "shape1 (W2 self) = o'"
    "shape0 (b2 self) = 1" "shape1 (b2 self) = o'"
    using net by (simp_all add: net_ok_def)
  show ?thesis
    unfolding backward_def Let_def
    apply (simp only: backward_gradients_ok[OF assms] sum.case prod.case option.case)
    apply (subst apply_updates_ok)
    apply (simp_all add: w sX sA1 sA2)
    done
qed

text \<open>After a forward call the cache has the shapes that backward relies on.\<close>

lemma forward_then:
  assumes net: "net_ok i h o' self" and sX: "shape0 X = N" "shape1 X = i"
  defines "self1 \<equiv> snd (forward self X)"
  shows "net_ok i h o' self1"
    and "lr self1 = lr self" "W1 self1 = W1 self" "b1 self1 = b1 self"
        "W2 self1 = W2 self" "b2 self1 = b2 self"
        "activation_prime self1 = activation_prime self"
    and "\<exists>Z1 A1 Z2 A2. z1 self1 = Some Z1 \<and> a1 self1 = Some A1 \<and> z2 self1 = Some Z2 \<and>
           a2 self1 = Some A2 \<and> fst (forward self X) = Inr A2 \<and>
           shape0 Z1 = N \<and> shape1 Z1 = h \<and> shape0 A1 = N \<and> shape1 A1 = h \<and>
           shape0 Z2 = N \<and> shape1 Z2 = o' \<and> shape0 A2 = N \<and> shape1 A2 = o'"
  using net sX unfolding self1_def forward_ok[OF net sX(2)] Let_def
  by (simp_all add: net_ok_def)



lemma forward_backward:
  assumes "net_ok i h o' self" and "shape0 X = N" and "shape1 X = i"
    and "shape0 y = N" and "shape1 y = o'" and "1 \<le> N"
  shows "\<exists>Z1 A1 A2.
           z1 (snd (forward self X)) = Some Z1 \<and>
           a1 (snd (forward self X)) = Some A1 \<and>
           a2 (snd (forward self X)) = Some A2 \<and>
           fst (forward self X) = Inr A2 \<and>
           shape1 A1 = h \<and> shape0 A2 = N \<and> shape1 A2 = o' \<and>
           backward (snd (forward self X)) X y =
             (Returned,
              (snd (forward self X))
                \<lparr>W2 := spec_step (lr self) (W2 self) (spec_dW2 N A1 A2 y),
                 b2 := spec_step (lr self) (b2 self) (spec_db2 N A2 y),
                 W1 := spec_step (lr self) (W1 self)
                         (spec_dW1 N (activation_prime self) (W2 self) X Z1 A2 y),
                 b1 := spec_step (lr self) (b1 self)
                         (spec_db1 N (activation_prime self) (W2 self) Z1 A2 y),
                 gradients :=
                   Some [''dW1'' \<mapsto> spec_dW1 N (activation_prime self) (W2 self) X Z1 A2 y,
                         ''db1'' \<mapsto> spec_db1 N (activation_prime self) (W2 self) Z1 A2 y,
                         ''dW2'' \<mapsto> spec_dW2 N A1 A2 y,
                         ''db2'' \<mapsto> spec_db2 N A2 y]\<rparr>)"
proof -
  let ?s = "snd (forward self X)"
  note f = forward_then[OF assms(1,2,3)]
  from f(8) obtain Z1 A1 Z2 A2 where c: "z1 ?s = Some Z1" "a1 ?s = Some A1" "a2 ?s = Some A2"
    and r: "fst (forward self X) = Inr A2"
    and sh: "shape0 Z1 = N" "shape1 Z1 = h" "shape0 A1 = N" "shape1 A1 = h"
      "shape0 A2 = N" "shape1 A2 = o'"
    by blast
  have N: "0 < N" using assms(6) by simp
  have "backward ?s X y =
     (let dW1 = spec_dW1 N (activation_prime ?s) (W2 ?s) X Z1 A2 y;
          db1 = spec_db1 N (activation_prime ?s) (W2 ?s) Z1 A2 y;
          dW2 = spec_dW2 N A1 A2 y;
          db2 = spec_db2 N A2 y
      in (Returned,
          ?s\<lparr>W2 := spec_step (lr ?s) (W2 ?s) dW2,
               b2 := spec_step (lr ?s) (b2 ?s) db2,
               W1 := spec_step (lr ?s) (W1 ?s) dW1,
               b1 := spec_step (lr ?s) (b1 ?s) db1,
               gradients :=
                 Some [''dW1'' \<mapsto> dW1, ''db1'' \<mapsto> db1, ''dW2'' \<mapsto> dW2, ''db2'' \<mapsto> db2]\<rparr>))"
    by (rule backward_ok[OF f(1) c sh assms(2,3,4,5) N])
  then show ?thesis
    using c r sh by (simp add: Let_def f(2-7))
qed

text \<open>
  Claim C1. After \<^verbatim>\<open>forward(X)\<close> on a batch of \<open>N \<ge> 1\<close> rows, \<^verbatim>\<open>backward(X, y)\<close> with
  labels of shape \<open>N \<times> output_dim\<close> returns, and the gradients it stores are those of the
  specification: \<open>\<delta>2 = A2 - y\<close> without the derivative of the output activation,
  \<open>dW2 = A1\<^sup>T\<cdot>\<delta>2 / N\<close>, \<open>db2\<close> the column sums of \<open>\<delta>2\<close> over \<open>N\<close>,
  \<open>\<delta>1 = (\<delta>2\<cdot>W2\<^sup>T) \<odot> phi'(Z1)\<close>, \<open>dW1 = X\<^sup>T\<cdot>\<delta>1 / N\<close>, \<open>db1\<close> the column sums of
  \<open>\<delta>1\<close> over \<open>N\<close>. \<open>Z1\<close>, \<open>A1\<close>, \<open>A2\<close> are the tensors the forward call cached, and
  \<open>W2\<close> is the parameter before the update.
\<close>

theorem backward_gradient_formulas:
  assumes "net_ok i h o' self" and "shape0 X = N" and "shape1 X = i"
    and "shape0 y = N" and "shape1 y = o'" and "1 \<le> N"
  shows "\<exists>Z1 A1 A2 self2.
           z1 (snd (forward self X)) = Some Z1 \<and>
           a1 (snd (forward self X)) = Some A1 \<and>
           a2 (snd (forward self X)) = Some A2 \<and>
           backward (snd (forward self X)) X y = (Returned, self2) \<and>
           gradients self2 =
             Some [''dW1'' \<mapsto> spec_dW1 N (activation_prime self) (W2 self) X Z1 A2 y,
                   ''db1'' \<mapsto> spec_db1 N (activation_prime self) (W2 self) Z1 A2 y,
                   ''dW2'' \<mapsto> spec_dW2 N A1 A2 y,
                   ''db2'' \<mapsto> spec_db2 N A2 y]"
proof -
  from forward_backward[OF assms] obtain Z1 A1 A2 s2 where
    "z1 (snd (forward self X)) = Some Z1" "a1 (snd (forward self X)) = Some A1"
    "a2 (snd (forward self X)) = Some A2"
    "backward (snd (forward self X)) X y = (Returned, s2)"
    "gradients s2 =
       Some [''dW1'' \<mapsto> spec_dW1 N (activation_prime self) (W2 self) X Z1 A2 y,
             ''db1'' \<mapsto> spec_db1 N (activation_prime self) (W2 self) Z1 A2 y,
             ''dW2'' \<mapsto> spec_dW2 N A1 A2 y,
             ''db2'' \<mapsto> spec_db2 N A2 y]"
    by force
  then show ?thesis by blast
qed

theorem backward_gradient_formulas_witness:
  "net_ok 2 3 1 net0 \<and> shape0 X_two = 2 \<and> shape1 X_two = 2 \<and>
   shape0 y_two = 2 \<and> shape1 y_two = 1 \<and> (1::nat) \<le> 2 \<and>
   (\<exists>Z1 A1 A2 self2.
      z1 (snd (forward net0 X_two)) = Some Z1 \<and>
      a1 (snd (forward net0 X_two)) = Some A1 \<and>
      a2 (snd (forward net0 X_two)) = Some A2 \<and>
      backward (snd (forward net0 X_two)) X_two y_two = (Returned, self2) \<and>
      gradients self2 =
        Some [''dW1'' \<mapsto> spec_dW1 2 (activation_prime net0) (W2 net0) X_two Z1 A2 y_two,
              ''db1'' \<mapsto> spec_db1 2 (activation_prime net0) (W2 net0) Z1 A2 y_two,
              ''dW2'' \<mapsto> spec_dW2 2 A1 A2 y_two,
              ''db2'' \<mapsto> spec_db2 2 A2 y_two])"
proof -
  have a: "net_ok 2 3 1 net0" by code_simp
  have b: "shape0 X_two = 2" "shape1 X_two = 2" by (simp_all add: X_two_def)
  have c: "shape0 y_two = 2" "shape1 y_two = 1" by (simp_all add: y_two_def)
  have d: "(1::nat) \<le> 2" by simp
  from backward_gradient_formulas[OF a b c d] a b c d show ?thesis by blast
qed

text \<open>
  Claim C3. In the same setting, the backward call computes the gradients of the
  specification's formulas (they are the result of lines 50 to 60 and what the call
  stores), and after the call each of the four parameters is its value before the call
  minus the learning rate times its gradient, entry by entry and exactly; all four are
  updated. This holds for every learning rate, the positive ones included.
\<close>

theorem backward_update_rule:
  assumes "net_ok i h o' self" and "shape0 X = N" and "shape1 X = i"
    and "shape0 y = N" and "shape1 y = o'" and "1 \<le> N"
  shows "\<exists>Z1 A1 A2 self2 G dW1 db1 dW2 db2.
           z1 (snd (forward self X)) = Some Z1 \<and>
           a1 (snd (forward self X)) = Some A1 \<and>
           a2 (snd (forward self X)) = Some A2 \<and>
           backward_gradients (snd (forward self X)) X y =
             Inr (Some dW1, Some db1, Some dW2, Some db2) \<and>
           dW1 = spec_dW1 N (activation_prime self) (W2 self) X Z1 A2 y \<and>
           db1 = spec_db1 N (activation_prime self) (W2 self) Z1 A2 y \<and>
           dW2 = spec_dW2 N A1 A2 y \<and>
           db2 = spec_db2 N A2 y \<and>
           backward (snd (forward self X)) X y = (Returned, self2) \<and>
           gradients self2 = Some G \<and>
           G ''dW1'' = Some dW1 \<and> G ''db1'' = Some db1 \<and>
           G ''dW2'' = Some dW2 \<and> G ''db2'' = Some db2 \<and>
           W1 self2 = spec_step (lr self) (W1 self) dW1 \<and>
           b1 self2 = spec_step (lr self) (b1 self) db1 \<and>
           W2 self2 = spec_step (lr self) (W2 self) dW2 \<and>
           b2 self2 = spec_step (lr self) (b2 self) db2"
proof -
  let ?s = "snd (forward self X)"
  note f = forward_then[OF assms(1,2,3)]
  from f(8) obtain Z1 A1 Z2 A2 where c: "z1 ?s = Some Z1" "a1 ?s = Some A1" "a2 ?s = Some A2"
    and sh: "shape0 Z1 = N" "shape1 Z1 = h" "shape0 A1 = N" "shape1 A1 = h"
      "shape0 A2 = N" "shape1 A2 = o'"
    by blast
  have N: "0 < N" using assms(6) by simp
  have g: "backward_gradients ?s X y =
     Inr (Some (spec_dW1 N (activation_prime self) (W2 self) X Z1 A2 y),
          Some (spec_db1 N (activation_prime self) (W2 self) Z1 A2 y),
          Some (spec_dW2 N A1 A2 y),
          Some (spec_db2 N A2 y))"
    using backward_gradients_ok[OF f(1) c sh assms(2,3,4,5) N] by (simp add: f(5,7))
  have b: "backward ?s X y =
     (Returned,
      ?s\<lparr>W2 := spec_step (lr self) (W2 self) (spec_dW2 N A1 A2 y),
          b2 := spec_step (lr self) (b2 self) (spec_db2 N A2 y),
          W1 := spec_step (lr self) (W1 self)
                  (spec_dW1 N (activation_prime self) (W2 self) X Z1 A2 y),
          b1 := spec_step (lr self) (b1 self)
                  (spec_db1 N (activation_prime self) (W2 self) Z1 A2 y),
          gradients :=
            Some [''dW1'' \<mapsto> spec_dW1 N (activation_prime self) (W2 self) X Z1 A2 y,
                  ''db1'' \<mapsto> spec_db1 N (activation_prime self) (W2 self) Z1 A2 y,
                  ''dW2'' \<mapsto> spec_dW2 N A1 A2 y,
                  ''db2'' \<mapsto> spec_db2 N A2 y]\<rparr>)"
    using backward_ok[OF f(1) c sh assms(2,3,4,5) N] by (simp add: Let_def f(2-7))
  show ?thesis
    unfolding b g using c by simp
qed

theorem backward_update_rule_witness:
  "net_ok 2 3 1 net0 \<and> shape0 X_two = 2 \<and> shape1 X_two = 2 \<and>
   shape0 y_two = 2 \<and> shape1 y_two = 1 \<and> (1::nat) \<le> 2 \<and>
   (\<exists>Z1 A1 A2 self2 G dW1 db1 dW2 db2.
      z1 (snd (forward net0 X_two)) = Some Z1 \<and>
      a1 (snd (forward net0 X_two)) = Some A1 \<and>
      a2 (snd (forward net0 X_two)) = Some A2 \<and>
      backward_gradients (snd (forward net0 X_two)) X_two y_two =
        Inr (Some dW1, Some db1, Some dW2, Some db2) \<and>
      dW1 = spec_dW1 2 (activation_prime net0) (W2 net0) X_two Z1 A2 y_two \<and>
      db1 = spec_db1 2 (activation_prime net0) (W2 net0) Z1 A2 y_two \<and>
      dW2 = spec_dW2 2 A1 A2 y_two \<and>
      db2 = spec_db2 2 A2 y_two \<and>
      backward (snd (forward net0 X_two)) X_two y_two = (Returned, self2) \<and>
      gradients self2 = Some G \<and>
      G ''dW1'' = Some dW1 \<and> G ''db1'' = Some db1 \<and>
      G ''dW2'' = Some dW2 \<and> G ''db2'' = Some db2 \<and>
      W1 self2 = spec_step (lr net0) (W1 net0) dW1 \<and>
      b1 self2 = spec_step (lr net0) (b1 net0) db1 \<and>
      W2 self2 = spec_step (lr net0) (W2 net0) dW2 \<and>
      b2 self2 = spec_step (lr net0) (b2 net0) db2) \<and>
   backward_gradients (snd (forward net0 X_two)) X_two y_two =
     Inr (Some \<lparr>shape0 = 2, shape1 = 3,
                 elems = [[29 / 2, - 2, 29 / 2], [- (5 / 2), - 4, - (5 / 2)]]\<rparr>,
          Some \<lparr>shape0 = 1, shape1 = 3, elems = [[11 / 2, - 2, 11 / 2]]\<rparr>,
          Some \<lparr>shape0 = 3, shape1 = 1, elems = [[29 / 2], [1], [53 / 2]]\<rparr>,
          Some \<lparr>shape0 = 1, shape1 = 1, elems = [[11 / 2]]\<rparr>) \<and>
   W1 (snd (backward (snd (forward net0 X_two)) X_two y_two)) =
     \<lparr>shape0 = 2, shape1 = 3,
      elems = [[- (9 / 20), - (4 / 5), 11 / 20], [1 / 4, 7 / 5, 5 / 4]]\<rparr> \<and>
   b1 (snd (backward (snd (forward net0 X_two)) X_two y_two)) =
     \<lparr>shape0 = 1, shape1 = 3, elems = [[- (11 / 20), 1 / 5, - (11 / 20)]]\<rparr> \<and>
   W2 (snd (backward (snd (forward net0 X_two)) X_two y_two)) =
     \<lparr>shape0 = 3, shape1 = 1, elems = [[- (9 / 20)], [- (21 / 10)], [- (33 / 20)]]\<rparr> \<and>
   b2 (snd (backward (snd (forward net0 X_two)) X_two y_two)) =
     \<lparr>shape0 = 1, shape1 = 1, elems = [[- (11 / 20)]]\<rparr>"
proof -
  have a: "net_ok 2 3 1 net0" by code_simp
  have b: "shape0 X_two = 2" "shape1 X_two = 2" by (simp_all add: X_two_def)
  have c: "shape0 y_two = 2" "shape1 y_two = 1" by (simp_all add: y_two_def)
  have d: "(1::nat) \<le> 2" by simp
  have g: "backward_gradients (snd (forward net0 X_two)) X_two y_two =
     Inr (Some \<lparr>shape0 = 2, shape1 = 3,
                 elems = [[29 / 2, - 2, 29 / 2], [- (5 / 2), - 4, - (5 / 2)]]\<rparr>,
          Some \<lparr>shape0 = 1, shape1 = 3, elems = [[11 / 2, - 2, 11 / 2]]\<rparr>,
          Some \<lparr>shape0 = 3, shape1 = 1, elems = [[29 / 2], [1], [53 / 2]]\<rparr>,
          Some \<lparr>shape0 = 1, shape1 = 1, elems = [[11 / 2]]\<rparr>)"
    by code_simp
  have w1: "W1 (snd (backward (snd (forward net0 X_two)) X_two y_two)) =
     \<lparr>shape0 = 2, shape1 = 3,
      elems = [[- (9 / 20), - (4 / 5), 11 / 20], [1 / 4, 7 / 5, 5 / 4]]\<rparr>"
    by code_simp
  have v1: "b1 (snd (backward (snd (forward net0 X_two)) X_two y_two)) =
     \<lparr>shape0 = 1, shape1 = 3, elems = [[- (11 / 20), 1 / 5, - (11 / 20)]]\<rparr>"
    by code_simp
  have w2: "W2 (snd (backward (snd (forward net0 X_two)) X_two y_two)) =
     \<lparr>shape0 = 3, shape1 = 1, elems = [[- (9 / 20)], [- (21 / 10)], [- (33 / 20)]]\<rparr>"
    by code_simp
  have v2: "b2 (snd (backward (snd (forward net0 X_two)) X_two y_two)) =
     \<lparr>shape0 = 1, shape1 = 1, elems = [[- (11 / 20)]]\<rparr>"
    by code_simp
  from backward_update_rule[OF a b c d] a b c d g w1 v1 w2 v2 show ?thesis by blast
qed

text \<open>
  Claim C7. For all dimensions and every batch of \<open>N \<ge> 1\<close> rows, \<^verbatim>\<open>forward(X)\<close> returns
  an array of shape \<open>N \<times> output_dim\<close>, and the four gradients that the following
  \<^verbatim>\<open>backward\<close> stores have the shapes of \<open>W1\<close>, \<open>b1\<close>, \<open>W2\<close>, \<open>b2\<close>.
\<close>

theorem shapes_preserved:
  assumes "net_ok i h o' self" and "shape0 X = N" and "shape1 X = i"
    and "shape0 y = N" and "shape1 y = o'" and "1 \<le> N"
  shows "\<exists>A2 self2 G dW1 db1 dW2 db2.
           fst (forward self X) = Inr A2 \<and> wf A2 \<and> shape0 A2 = N \<and> shape1 A2 = o' \<and>
           backward (snd (forward self X)) X y = (Returned, self2) \<and>
           gradients self2 = Some G \<and>
           G ''dW1'' = Some dW1 \<and> G ''db1'' = Some db1 \<and>
           G ''dW2'' = Some dW2 \<and> G ''db2'' = Some db2 \<and>
           wf dW1 \<and> shape0 dW1 = shape0 (W1 self) \<and> shape1 dW1 = shape1 (W1 self) \<and>
           wf db1 \<and> shape0 db1 = shape0 (b1 self) \<and> shape1 db1 = shape1 (b1 self) \<and>
           wf dW2 \<and> shape0 dW2 = shape0 (W2 self) \<and> shape1 dW2 = shape1 (W2 self) \<and>
           wf db2 \<and> shape0 db2 = shape0 (b2 self) \<and> shape1 db2 = shape1 (b2 self)"
proof -
  have w: "shape0 (W1 self) = i" "shape1 (W1 self) = h" "shape0 (b1 self) = 1"
    "shape1 (b1 self) = h" "shape0 (W2 self) = h" "shape1 (W2 self) = o'"
    "shape0 (b2 self) = 1" "shape1 (b2 self) = o'"
    using assms(1) by (simp_all add: net_ok_def)
  have wfA: "wf (fst_out)" if "fst (forward self X) = Inr fst_out" for fst_out
    using that unfolding forward_ok[OF assms(1,3)] Let_def by auto
  from forward_backward[OF assms] obtain Z1 A1 A2 where
    r: "fst (forward self X) = Inr A2" "shape1 A1 = h" "shape0 A2 = N" "shape1 A2 = o'"
    and b: "backward (snd (forward self X)) X y =
             (Returned,
              (snd (forward self X))
                \<lparr>W2 := spec_step (lr self) (W2 self) (spec_dW2 N A1 A2 y),
                 b2 := spec_step (lr self) (b2 self) (spec_db2 N A2 y),
                 W1 := spec_step (lr self) (W1 self)
                         (spec_dW1 N (activation_prime self) (W2 self) X Z1 A2 y),
                 b1 := spec_step (lr self) (b1 self)
                         (spec_db1 N (activation_prime self) (W2 self) Z1 A2 y),
                 gradients :=
                   Some [''dW1'' \<mapsto> spec_dW1 N (activation_prime self) (W2 self) X Z1 A2 y,
                         ''db1'' \<mapsto> spec_db1 N (activation_prime self) (W2 self) Z1 A2 y,
                         ''dW2'' \<mapsto> spec_dW2 N A1 A2 y,
                         ''db2'' \<mapsto> spec_db2 N A2 y]\<rparr>)"
    by blast
  show ?thesis
    unfolding b using r wfA[OF r(1)] by (simp add: w assms wf_spec_grads)
qed


theorem shapes_preserved_witness:
  "net_ok 2 3 1 net0 \<and> shape0 X_two = 2 \<and> shape1 X_two = 2 \<and>
   shape0 y_two = 2 \<and> shape1 y_two = 1 \<and> (1::nat) \<le> 2 \<and>
   (\<exists>A2 self2 G dW1 db1 dW2 db2.
      fst (forward net0 X_two) = Inr A2 \<and> wf A2 \<and> shape0 A2 = 2 \<and> shape1 A2 = 1 \<and>
      backward (snd (forward net0 X_two)) X_two y_two = (Returned, self2) \<and>
      gradients self2 = Some G \<and>
      G ''dW1'' = Some dW1 \<and> G ''db1'' = Some db1 \<and>
      G ''dW2'' = Some dW2 \<and> G ''db2'' = Some db2 \<and>
      wf dW1 \<and> shape0 dW1 = shape0 (W1 net0) \<and> shape1 dW1 = shape1 (W1 net0) \<and>
      wf db1 \<and> shape0 db1 = shape0 (b1 net0) \<and> shape1 db1 = shape1 (b1 net0) \<and>
      wf dW2 \<and> shape0 dW2 = shape0 (W2 net0) \<and> shape1 dW2 = shape1 (W2 net0) \<and>
      wf db2 \<and> shape0 db2 = shape0 (b2 net0) \<and> shape1 db2 = shape1 (b2 net0))"
proof -
  have a: "net_ok 2 3 1 net0" by code_simp
  have b: "shape0 X_two = 2" "shape1 X_two = 2" by (simp_all add: X_two_def)
  have c: "shape0 y_two = 2" "shape1 y_two = 1" by (simp_all add: y_two_def)
  have d: "(1::nat) \<le> 2" by simp
  from shapes_preserved[OF a b c d] a b c d show ?thesis by blast
qed

lemma apply_updates_frame:
  "snd (apply_updates self dW1 db1 dW2 db2) =
     self\<lparr>W1 := W1 (snd (apply_updates self dW1 db1 dW2 db2)),
          b1 := b1 (snd (apply_updates self dW1 db1 dW2 db2)),
          W2 := W2 (snd (apply_updates self dW1 db1 dW2 db2)),
          b2 := b2 (snd (apply_updates self dW1 db1 dW2 db2)),
          gradients := gradients (snd (apply_updates self dW1 db1 dW2 db2))\<rparr>"
  by (simp add: apply_updates_def Let_def split: sum.splits)

lemma backward_snd:
  "snd (backward self X y) = self \<or>
   (\<exists>dW1 db1 dW2 db2. snd (backward self X y) = snd (apply_updates self dW1 db1 dW2 db2))"
  by (auto simp: backward_def split: sum.splits option.splits prod.splits)
     (metis snd_conv)+

text \<open>The shapes of the parameters are an invariant of a training step.\<close>

lemma net_ok_train_step:
  assumes "net_ok i h o' self" and "shape0 X = N" and "shape1 X = i"
    and "shape0 y = N" and "shape1 y = o'" and "1 \<le> N"
  shows "net_ok i h o' (snd (backward (snd (forward self X)) X y))"
proof -
  have w: "shape0 (W1 self) = i" "shape1 (W1 self) = h" "shape0 (b1 self) = 1"
    "shape1 (b1 self) = h" "shape0 (W2 self) = h" "shape1 (W2 self) = o'"
    "shape0 (b2 self) = 1" "shape1 (b2 self) = o'"
    using assms(1) by (simp_all add: net_ok_def)
  from forward_backward[OF assms] obtain Z1 A1 A2 where
    b: "backward (snd (forward self X)) X y =
             (Returned,
              (snd (forward self X))
                \<lparr>W2 := spec_step (lr self) (W2 self) (spec_dW2 N A1 A2 y),
                 b2 := spec_step (lr self) (b2 self) (spec_db2 N A2 y),
                 W1 := spec_step (lr self) (W1 self)
                         (spec_dW1 N (activation_prime self) (W2 self) X Z1 A2 y),
                 b1 := spec_step (lr self) (b1 self)
                         (spec_db1 N (activation_prime self) (W2 self) Z1 A2 y),
                 gradients :=
                   Some [''dW1'' \<mapsto> spec_dW1 N (activation_prime self) (W2 self) X Z1 A2 y,
                         ''db1'' \<mapsto> spec_db1 N (activation_prime self) (W2 self) Z1 A2 y,
                         ''dW2'' \<mapsto> spec_dW2 N A1 A2 y,
                         ''db2'' \<mapsto> spec_db2 N A2 y]\<rparr>)"
    by blast
  show ?thesis
    unfolding b by (simp add: net_ok_def w)
qed

text \<open>
  Claim C10. \<^verbatim>\<open>backward\<close> leaves the forward cache as it is: on every input and with
  every outcome, \<open>z1\<close>, \<open>a1\<close>, \<open>z2\<close>, \<open>a2\<close> after the call are those before it, and the
  state differs from the state before the call in the four parameters and the gradient
  dictionary at most.
\<close>

theorem backward_frame:
  "z1 (snd (backward self X y)) = z1 self \<and> a1 (snd (backward self X y)) = a1 self \<and>
   z2 (snd (backward self X y)) = z2 self \<and> a2 (snd (backward self X y)) = a2 self \<and>
   snd (backward self X y) =
     self\<lparr>W1 := W1 (snd (backward self X y)), b1 := b1 (snd (backward self X y)),
          W2 := W2 (snd (backward self X y)), b2 := b2 (snd (backward self X y)),
          gradients := gradients (snd (backward self X y))\<rparr>"
proof -
  from backward_snd[of self X y] show ?thesis
  proof
    assume "snd (backward self X y) = self"
    then show ?thesis by simp
  next
    assume "\<exists>dW1 db1 dW2 db2.
      snd (backward self X y) = snd (apply_updates self dW1 db1 dW2 db2)"
    then obtain dW1 db1 dW2 db2 where
      e: "snd (backward self X y) = snd (apply_updates self dW1 db1 dW2 db2)" by blast
    have f: "snd (backward self X y) =
       self\<lparr>W1 := W1 (snd (backward self X y)), b1 := b1 (snd (backward self X y)),
          W2 := W2 (snd (backward self X y)), b2 := b2 (snd (backward self X y)),
          gradients := gradients (snd (backward self X y))\<rparr>"
      unfolding e by (rule apply_updates_frame)
    have "z1 (snd (backward self X y)) = z1 self" "a1 (snd (backward self X y)) = a1 self"
      "z2 (snd (backward self X y)) = z2 self" "a2 (snd (backward self X y)) = a2 self"
      by (subst f, simp)+
    with f show ?thesis by blast
  qed
qed

text \<open>
  Claim C4 says that \<^verbatim>\<open>backward\<close> fails and changes no parameter whenever the row count
  of \<open>y\<close> or of \<open>X\<close> differs from the batch of the preceding \<^verbatim>\<open>forward\<close>. The method has
  no check of its own; what fails is a numpy operation on shapes that do not fit, and
  numpy stretches labels of one row over the batch. After a forward pass on two rows, the
  call with the same \<open>X\<close> and labels of one row returns and has changed \<open>W2\<close>.
\<close>

theorem backward_single_row_labels_counterexample:
  "shape0 y_one \<noteq> shape0 X_two \<and>
   fst (backward (snd (forward net0 X_two)) X_two y_one) = Returned \<and>
   W2 (snd (backward (snd (forward net0 X_two)) X_two y_one)) \<noteq> W2 (snd (forward net0 X_two))"
  by code_simp

text \<open>
  Claim C4, amended. When the row count of \<open>X\<close> differs from the batch of the preceding
  \<^verbatim>\<open>forward\<close>, or the row count of \<open>y\<close> is neither that batch size nor 1, \<^verbatim>\<open>backward\<close>
  raises (numpy's ValueError; the program has no error type of its own) and the state
  after the call, the four parameters included, is the state before it.
\<close>

theorem backward_mismatch_raises:
  assumes "net_ok i h o' self" and "shape0 X0 = N" and "shape1 X0 = i"
    and "shape0 X = M" and "shape1 X = i" and "shape0 y = K" and "shape1 y = o'"
    and "M \<noteq> N \<or> (K \<noteq> N \<and> K \<noteq> 1)"
  shows "\<exists>msg. backward (snd (forward self X0)) X y =
           (Raised (ValueError msg), snd (forward self X0))"
proof -
  let ?s = "snd (forward self X0)"
  note f = forward_then[OF assms(1,2,3)]
  from f(8) obtain Z1 A1 Z2 A2 where c: "z1 ?s = Some Z1" "a1 ?s = Some A1" "a2 ?s = Some A2"
    and sh: "shape0 Z1 = N" "shape1 Z1 = h" "shape0 A1 = N" "shape1 A1 = h"
      "shape0 A2 = N" "shape1 A2 = o'"
    by blast
  have w: "shape0 (W2 ?s) = h" "shape1 (W2 ?s) = o'"
    using f(1) by (simp_all add: net_ok_def)
  have "\<exists>msg. backward_gradients ?s X y = Inl (ValueError msg)"
    using assms(8)
    by (auto simp: backward_gradients_def Let_def c sh w assms(4-7) np_subtract_def
        np_multiply_def broadcast2_def broadcast_dim_def np_dot_def
        split: sum.splits option.splits)
  then show ?thesis
    by (auto simp: backward_def)
qed


theorem backward_mismatch_raises_witness:
  "net_ok 2 3 1 net0 \<and> shape0 X_two = 2 \<and> shape1 X_two = 2 \<and>
   shape0 X_one = 1 \<and> shape1 X_one = 2 \<and> shape0 y_two = 2 \<and> shape1 y_two = 1 \<and>
   shape0 X_one \<noteq> shape0 X_two \<and>
   (\<exists>msg. backward (snd (forward net0 X_two)) X_one y_two =
            (Raised (ValueError msg), snd (forward net0 X_two)))"
proof -
  have a: "net_ok 2 3 1 net0" by code_simp
  have b: "shape0 X_two = 2" "shape1 X_two = 2" by (simp_all add: X_two_def)
  have c: "shape0 X_one = 1" "shape1 X_one = 2" by (simp_all add: X_one_def)
  have d: "shape0 y_two = 2" "shape1 y_two = 1" by (simp_all add: y_two_def)
  have e: "(1::nat) \<noteq> 2 \<or> ((2::nat) \<noteq> 2 \<and> (2::nat) \<noteq> 1)" by simp
  have f: "shape0 X_one \<noteq> shape0 X_two" by (simp add: b c)
  from backward_mismatch_raises[OF a b c d e] a b c d f show ?thesis by blast
qed

text \<open>
  Labels of exactly one row: only the difference \<open>A2 - y\<close> reads \<open>y\<close>, and numpy
  stretches the one row over the batch there. The call is then the call with that row
  repeated \<open>N\<close> times, and it returns.
\<close>

lemma backward_gradients_labels:
  assumes "a2 self = Some A2" and "np_subtract A2 y = np_subtract A2 y'"
  shows "backward_gradients self X y = backward_gradients self X y'"
  using assms by (simp add: backward_gradients_def)

lemma backward_labels:
  assumes "a2 self = Some A2" and "np_subtract A2 y = np_subtract A2 y'"
  shows "backward self X y = backward self X y'"
  using backward_gradients_labels[OF assms] by (simp add: backward_def)

lemma backward_one_row_labels:
  assumes "net_ok i h o' self" and "shape0 X = N" and "shape1 X = i"
    and "shape0 y = 1" and "shape1 y = o'" and "1 \<le> N"
  shows "backward (snd (forward self X)) X y =
         backward (snd (forward self X)) X (mk N o' (\<lambda>n j. entry y 0 j))"
    and "fst (backward (snd (forward self X)) X y) = Returned"
proof -
  let ?s = "snd (forward self X)"
  let ?y = "mk N o' (\<lambda>n j. entry y 0 j)"
  note f = forward_then[OF assms(1,2,3)]
  from f(8) obtain A2 where c: "a2 ?s = Some A2" and sh: "shape0 A2 = N" "shape1 A2 = o'"
    by blast
  have "np_subtract A2 y = Inr (mk N o' (\<lambda>n j. entry A2 n j - entry y 0 j))"
    unfolding np_subtract_def by (subst broadcast2_row) (simp_all add: assms sh)
  moreover have "np_subtract A2 ?y = Inr (mk N o' (\<lambda>n j. entry A2 n j - entry y 0 j))"
    unfolding np_subtract_def by (subst broadcast2_same) (auto simp: sh intro!: mk_cong)
  ultimately have e: "np_subtract A2 y = np_subtract A2 ?y" by simp
  show 1: "backward ?s X y = backward ?s X ?y"
    by (rule backward_labels[OF c e])
  have sy: "shape0 ?y = N" "shape1 ?y = o'" by simp_all
  from forward_backward[OF assms(1,2,3) sy assms(6)]
  have "fst (backward ?s X ?y) = Returned" by auto
  with 1 show "fst (backward ?s X y) = Returned" by simp
qed

section \<open>Construction\<close>

lemma MLP_init_cases:
  "MLP_init seed randn g i h o' rate act =
     (let w1 = fst (randn (seed 0) i h);
          g1 = snd (randn (seed 0) i h);
          w2 = fst (randn g1 h o');
          g2 = snd (randn g1 h o');
          self = \<lambda>phi phi'.
            \<lparr>lr = rate, activation_fn = act, W1 = w1, b1 = np_zeros 1 h, W2 = w2,
             b2 = np_zeros 1 o', activation = phi, activation_prime = phi',
             z1 = None, a1 = None, z2 = None, a2 = None, gradients = None\<rparr>
      in if act = ''tanh'' then (Inr (self tanh tanh_prime), g2)
         else if act = ''relu'' then (Inr (self relu relu_prime), g2)
         else if act = ''sigmoid'' then (Inr (self sigmoid sigmoid_prime), g2)
         else (Inl (ValueError ''Activation function not supported''), g2))"
  by (simp add: MLP_init_def Let_def split: prod.splits)

text \<open>
  A generator that returns arrays of the shape it is asked for gives the parameters their
  shapes.
\<close>

lemma net_ok_init:
  assumes "\<And>g r c. wf (fst (randn g r c)) \<and> shape0 (fst (randn g r c)) = r \<and>
             shape1 (fst (randn g r c)) = c"
    and "fst (MLP_init seed randn g i h o' rate act) = Inr self"
  shows "net_ok i h o' self"
  using assms(2) assms(1)
  by (auto simp: MLP_init_cases Let_def net_ok_def np_zeros_def split: if_splits)

text \<open>
  Claim C5. The activation and the derivative that the constructor stores are those of
  the table: \<open>tanh x\<close> with \<open>1 - tanh\<^sup>2 x\<close>; \<open>max 0 x\<close> with 1 for \<open>x > 0\<close> and 0
  otherwise; \<open>1 / (1 + e\<^sup>-\<^sup>x)\<close> with \<open>phi x \<cdot> (1 - phi x)\<close>.
\<close>

theorem activation_table:
  "(\<exists>self. fst (MLP_init seed randn g i h o' rate ''tanh'') = Inr self \<and>
       activation self = tanh \<and>
       activation_prime self = (\<lambda>x. 1 - (tanh x)\<^sup>2)) \<and>
   (\<exists>self. fst (MLP_init seed randn g i h o' rate ''relu'') = Inr self \<and>
       activation self = (\<lambda>x. max 0 x) \<and>
       activation_prime self = (\<lambda>x. if x > 0 then 1 else 0)) \<and>
   (\<exists>self. fst (MLP_init seed randn g i h o' rate ''sigmoid'') = Inr self \<and>
       activation self = (\<lambda>x. 1 / (1 + exp (- x))) \<and>
       activation_prime self = (\<lambda>x. activation self x * (1 - activation self x)))"
  by (simp add: MLP_init_cases Let_def fun_eq_iff tanh_prime_def relu_def relu_prime_def
      sigmoid_def sigmoid_prime_def)

text \<open>
  Claim C6. With an activation name other than tanh, relu and sigmoid the constructor
  raises (the ValueError of line 38, the specification's ConfigurationError); with each
  of the three names it returns a network whose biases \<open>b1\<close> and \<open>b2\<close> are rows of
  zeros and whose weights \<open>W1\<close> and \<open>W2\<close> are the two arrays of standard normal draws
  that \<^verbatim>\<open>np.random.randn\<close> returns, one after the other.
\<close>

theorem construction:
  "(act \<notin> {''tanh'', ''relu'', ''sigmoid''} \<longrightarrow>
      fst (MLP_init seed randn g i h o' rate act) =
        Inl (ValueError ''Activation function not supported'')) \<and>
   (act \<in> {''tanh'', ''relu'', ''sigmoid''} \<longrightarrow>
      (\<exists>self. fst (MLP_init seed randn g i h o' rate act) = Inr self \<and>
         b1 self = np_zeros 1 h \<and> wf (b1 self) \<and> shape0 (b1 self) = 1 \<and>
         shape1 (b1 self) = h \<and> (\<forall>j<h. entry (b1 self) 0 j = 0) \<and>
         b2 self = np_zeros 1 o' \<and> wf (b2 self) \<and> shape0 (b2 self) = 1 \<and>
         shape1 (b2 self) = o' \<and> (\<forall>j<o'. entry (b2 self) 0 j = 0) \<and>
         W1 self = fst (randn (seed 0) i h) \<and>
         W2 self = fst (randn (snd (randn (seed 0) i h)) h o') \<and>
         lr self = rate \<and> activation_fn self = act))"
  by (auto simp: MLP_init_cases Let_def np_zeros_def)

text \<open>
  Claim C9. The constructor reseeds the global generator with 0 before it draws, so two
  networks built with the same dimensions have the same \<open>W1\<close> and \<open>W2\<close> whatever the
  state of the generator was before either call (and whatever rate and activation they
  are given), and both calls leave the generator in the same state.
\<close>

theorem construction_reseeds:
  assumes "fst (MLP_init seed randn g i h o' rate act) = Inr self"
    and "fst (MLP_init seed randn g' i h o' rate' act') = Inr self'"
  shows "W1 self = W1 self' \<and> W2 self = W2 self' \<and>
         snd (MLP_init seed randn g i h o' rate act) =
         snd (MLP_init seed randn g' i h o' rate' act')"
  using assms by (auto simp: MLP_init_cases Let_def split: if_splits)

theorem activation_table_witness:
  "(\<exists>self. fst (MLP_init toy_seed toy_randn 7 2 3 1 (1 / 10) ''tanh'') = Inr self \<and>
       activation self = tanh \<and>
       activation_prime self = (\<lambda>x. 1 - (tanh x)\<^sup>2)) \<and>
   (\<exists>self. fst (MLP_init toy_seed toy_randn 7 2 3 1 (1 / 10) ''relu'') = Inr self \<and>
       activation self = (\<lambda>x. max 0 x) \<and>
       activation_prime self = (\<lambda>x. if x > 0 then 1 else 0)) \<and>
   (\<exists>self. fst (MLP_init toy_seed toy_randn 7 2 3 1 (1 / 10) ''sigmoid'') = Inr self \<and>
       activation self = (\<lambda>x. 1 / (1 + exp (- x))) \<and>
       activation_prime self = (\<lambda>x. activation self x * (1 - activation self x)))"
  by (rule activation_table[of toy_seed toy_randn 7 2 3 1 "1 / 10"])

theorem construction_witness:
  "''softmax'' \<notin> {''tanh'', ''relu'', ''sigmoid''} \<and>
   fst (MLP_init toy_seed toy_randn 7 2 3 1 (1 / 10) ''softmax'') =
     Inl (ValueError ''Activation function not supported'') \<and>
   ''relu'' \<in> {''tanh'', ''relu'', ''sigmoid''} \<and>
   (\<exists>self. fst (MLP_init toy_seed toy_randn 7 2 3 1 (1 / 10) ''relu'') = Inr self \<and>
      b1 self = np_zeros 1 3 \<and> (\<forall>j<3. entry (b1 self) 0 j = 0) \<and>
      b2 self = np_zeros 1 1 \<and> (\<forall>j<1. entry (b2 self) 0 j = 0) \<and>
      W1 self = fst (toy_randn (toy_seed 0) 2 3) \<and>
      W2 self = fst (toy_randn (snd (toy_randn (toy_seed 0) 2 3)) 3 1))"
proof -
  have a: "''softmax'' \<notin> {''tanh'', ''relu'', ''sigmoid''}" by simp
  have b: "''relu'' \<in> {''tanh'', ''relu'', ''sigmoid''}" by simp
  from construction[of "''softmax''" toy_seed toy_randn 7 2 3 1 "1 / 10"] a
  have c: "fst (MLP_init toy_seed toy_randn 7 2 3 1 (1 / 10) ''softmax'') =
     Inl (ValueError ''Activation function not supported'')" by blast
  from construction[of "''relu''" toy_seed toy_randn 7 2 3 1 "1 / 10"] b
  have d: "\<exists>self. fst (MLP_init toy_seed toy_randn 7 2 3 1 (1 / 10) ''relu'') = Inr self \<and>
      b1 self = np_zeros 1 3 \<and> (\<forall>j<3. entry (b1 self) 0 j = 0) \<and>
      b2 self = np_zeros 1 1 \<and> (\<forall>j<1. entry (b2 self) 0 j = 0) \<and>
      W1 self = fst (toy_randn (toy_seed 0) 2 3) \<and>
      W2 self = fst (toy_randn (snd (toy_randn (toy_seed 0) 2 3)) 3 1)" by blast
  from a b c d show ?thesis by blast
qed

theorem construction_reseeds_witness:
  "fst (MLP_init toy_seed toy_randn 5 2 3 1 (1 / 10) ''relu'') = Inr net_seeded \<and>
   fst (MLP_init toy_seed toy_randn 99 2 3 1 (1 / 2) ''tanh'') =
     Inr (net_seeded\<lparr>lr := 1 / 2, activation_fn := ''tanh'', activation := tanh,
                     activation_prime := tanh_prime\<rparr>) \<and>
   W1 net_seeded = W1 (net_seeded\<lparr>lr := 1 / 2, activation_fn := ''tanh'', activation := tanh,
                     activation_prime := tanh_prime\<rparr>) \<and>
   W2 net_seeded = W2 (net_seeded\<lparr>lr := 1 / 2, activation_fn := ''tanh'', activation := tanh,
                     activation_prime := tanh_prime\<rparr>) \<and>
   snd (MLP_init toy_seed toy_randn 5 2 3 1 (1 / 10) ''relu'') =
   snd (MLP_init toy_seed toy_randn 99 2 3 1 (1 / 2) ''tanh'')"
proof -
  have a: "fst (MLP_init toy_seed toy_randn 5 2 3 1 (1 / 10) ''relu'') = Inr net_seeded"
    by (simp add: MLP_init_cases Let_def net_seeded_def toy_seed_def toy_randn_def)
  have b: "fst (MLP_init toy_seed toy_randn 99 2 3 1 (1 / 2) ''tanh'') =
     Inr (net_seeded\<lparr>lr := 1 / 2, activation_fn := ''tanh'', activation := tanh,
                     activation_prime := tanh_prime\<rparr>)"
    by (simp add: MLP_init_cases Let_def net_seeded_def toy_seed_def toy_randn_def)
  from construction_reseeds[OF a b] a b show ?thesis by blast
qed

end
